theory Spec2Isabelle
  imports Main "HOL-Library.Word" "HOL-Library.Sublist" "HOL-Library.AList"
begin

section \<open>Values, exceptions and mappings\<close>

text \<open>
  The module \<^verbatim>\<open>image_captcha.py\<close> defines the class \<^verbatim>\<open>ImageCaptcha\<close>: two handlers
  (\<^verbatim>\<open>captcha_handler\<close>, \<^verbatim>\<open>aio_captcha_handler\<close>), the helpers
  \<^verbatim>\<open>_image_const_saver\<close> and \<^verbatim>\<open>_local_image_captcha\<close>, and the finaliser
  \<^verbatim>\<open>__del__\<close>. A raised exception is a value: every operation returns
  \<open>exn + 'a\<close>, with \<open>Inl\<close> for the raise. \<open>Exc\<close> is an instance of a subclass of
  \<^verbatim>\<open>Exception\<close> (what \<^verbatim>\<open>except Exception\<close> catches); \<open>BaseExc\<close> is an instance of
  \<^verbatim>\<open>BaseException\<close> outside \<^verbatim>\<open>Exception\<close> (\<^verbatim>\<open>KeyboardInterrupt\<close>, \<^verbatim>\<open>SystemExit\<close>,
  a cancellation), which that clause lets through.
\<close>

type_synonym byte = "8 word"
type_synonym bytes = "byte list"

datatype exn = Exc string | BaseExc string

fun is_Exception :: "exn \<Rightarrow> bool" where
  "is_Exception (Exc _) = True"
| "is_Exception (BaseExc _) = False"

datatype pyval = PNone | PBool bool | PInt int | PStr string | PExc exn

text \<open>A Python \<^verbatim>\<open>dict\<close> with string keys, in insertion order.\<close>

type_synonym dict = "(string \<times> pyval) list"

text \<open>
  Truthiness of an optional argument: \<^verbatim>\<open>None\<close>, \<^verbatim>\<open>''\<close> and \<^verbatim>\<open>b''\<close> are false.
  \<open>truthy\<close> keeps the value of a true argument and maps a false one to \<open>None\<close>.
\<close>

definition truthy :: "'a list option \<Rightarrow> 'a list option" where
  "truthy x = (case x of None \<Rightarrow> None | Some v \<Rightarrow> if v = [] then None else Some v)"

section \<open>Base64 (\<^verbatim>\<open>base64.b64encode\<close>, \<^verbatim>\<open>base64.b64decode\<close>)\<close>

text \<open>
  The standard alphabet of RFC 4648 with \<^verbatim>\<open>=\<close> padding. Three octets give four
  sextets; one or two trailing octets give two or three sextets and padding.
  \<open>b64encode\<close> is \<^verbatim>\<open>base64.b64encode(bs).decode("utf-8")\<close>: the encoder's output is
  ASCII, so decoding it as UTF-8 gives the same characters. \<open>b64decode\<close> is the strict
  decoder: it returns \<open>None\<close> on text that is not canonical padded base64.
\<close>

definition b64_alphabet :: string where
  "b64_alphabet = ''ABCDEFGHIJKLMNOPQRSTUVWXYZabcdefghijklmnopqrstuvwxyz0123456789+/''"

definition b64_char :: "nat \<Rightarrow> char" where
  "b64_char n = b64_alphabet ! n"

fun index_of :: "'a \<Rightarrow> 'a list \<Rightarrow> nat" where
  "index_of x [] = 0"
| "index_of x (y # ys) = (if x = y then 0 else Suc (index_of x ys))"

definition b64_index :: "char \<Rightarrow> nat option" where
  "b64_index ch = (if ch \<in> set b64_alphabet then Some (index_of ch b64_alphabet) else None)"

fun b64encode :: "bytes \<Rightarrow> string" where
  "b64encode [] = []"
| "b64encode [a] =
     [b64_char (unat a div 4), b64_char (unat a mod 4 * 16), CHR ''='', CHR ''='']"
| "b64encode [a, b] =
     [b64_char (unat a div 4), b64_char (unat a mod 4 * 16 + unat b div 16),
      b64_char (unat b mod 16 * 4), CHR ''='']"
| "b64encode (a # b # c # rest) =
     [b64_char (unat a div 4), b64_char (unat a mod 4 * 16 + unat b div 16),
      b64_char (unat b mod 16 * 4 + unat c div 64), b64_char (unat c mod 64)]
     @ b64encode rest"

fun b64decode :: "string \<Rightarrow> bytes option" where
  "b64decode [] = Some []"
| "b64decode (w # x # y # z # rest) =
     (case (b64_index w, b64_index x) of
        (Some i, Some j) \<Rightarrow>
          (if y = CHR ''='' \<and> z = CHR ''='' \<and> rest = [] then
             Some [word_of_nat (i * 4 + j div 16)]
           else if z = CHR ''='' \<and> rest = [] then
             (case b64_index y of
                Some k \<Rightarrow> Some [word_of_nat (i * 4 + j div 16), word_of_nat (j mod 16 * 16 + k div 4)]
              | None \<Rightarrow> None)
           else
             (case (b64_index y, b64_index z, b64decode rest) of
                (Some k, Some l, Some bs) \<Rightarrow>
                  Some (word_of_nat (i * 4 + j div 16) # word_of_nat (j mod 16 * 16 + k div 4)
                        # word_of_nat (k mod 4 * 64 + l) # bs)
              | _ \<Rightarrow> None))
      | _ \<Rightarrow> None)"
| "b64decode _ = None"


section \<open>The file system\<close>

text \<open>
  The operating system's side of \<^verbatim>\<open>open\<close>, \<^verbatim>\<open>Path.mkdir\<close>, \<^verbatim>\<open>os.path.join\<close> and
  \<^verbatim>\<open>shutil.rmtree\<close> (POSIX). A path is resolved to its list of components, as
  \<^verbatim>\<open>PurePosixPath.parts\<close> does: empty components and \<^verbatim>\<open>.\<close> are dropped and an absolute
  path starts with the component \<^verbatim>\<open>/\<close>; the empty list is the working directory.
  A file system is the list of its directories and its files with their contents.
  Permissions and symbolic links are outside the model, and so is the resolution of
  \<^verbatim>\<open>..\<close>: it is kept as a component, as \<^verbatim>\<open>PurePosixPath\<close> keeps it, so the model is
  exact for paths without a \<^verbatim>\<open>..\<close> component only.
\<close>

type_synonym path = "string list"

record filesystem =
  dirs :: "path list"
  files :: "(path \<times> bytes) list"

fun split_slash :: "string \<Rightarrow> string list" where
  "split_slash [] = [[]]"
| "split_slash (ch # cs) =
     (if ch = CHR ''/'' then [] # split_slash cs
      else (case split_slash cs of [] \<Rightarrow> [[ch]] | w # ws \<Rightarrow> (ch # w) # ws))"

definition parts :: "string \<Rightarrow> path" where
  "parts s = (if take 1 s = ''/'' then [''/''] else [])
             @ filter (\<lambda>w. w \<noteq> [] \<and> w \<noteq> ''.'') (split_slash s)"

definition os_path_join :: "string \<Rightarrow> string \<Rightarrow> string" where
  "os_path_join a b =
     (if take 1 b = ''/'' then b
      else if a = [] \<or> last a = CHR ''/'' then a @ b
      else a @ ''/'' @ b)"

definition is_dir :: "filesystem \<Rightarrow> path \<Rightarrow> bool" where
  "is_dir f p = (p \<in> set (dirs f))"

definition is_file :: "filesystem \<Rightarrow> path \<Rightarrow> bool" where
  "is_file f p = (map_of (files f) p \<noteq> None)"

text \<open>
  \<^verbatim>\<open>Path(p).mkdir(parents=True, exist_ok=True)\<close>: nothing happens when the directory
  exists; a file at the path or at one of its ancestors is an error; otherwise the
  directory and every missing ancestor are created.
\<close>

definition mkdir_parents :: "path \<Rightarrow> filesystem \<Rightarrow> exn + filesystem" where
  "mkdir_parents p f =
     (if is_dir f p then Inr f
      else if is_file f p then Inl (Exc ''FileExistsError'')
      else if list_ex (is_file f) (prefixes p) then Inl (Exc ''NotADirectoryError'')
      else Inr (f\<lparr>dirs := dirs f @ filter (\<lambda>q. \<not> is_dir f q) (prefixes p)\<rparr>))"

text \<open>
  A path that ends in \<^verbatim>\<open>/\<close> or whose last component is \<^verbatim>\<open>.\<close> names a directory: the
  system call fails with \<^verbatim>\<open>ENOTDIR\<close> when a regular file is what is there.
\<close>

definition wants_dir :: "string \<Rightarrow> bool" where
  "wants_dir name = (last (split_slash name) = [] \<or> last (split_slash name) = ''.'')"

text \<open>
  \<^verbatim>\<open>with open(name, "rb") as file: return file.read()\<close>: the content of the regular file
  at the path. A directory there is \<^verbatim>\<open>IsADirectoryError\<close>; a regular file named as a
  directory, or a regular file in the place of an ancestor, is \<^verbatim>\<open>NotADirectoryError\<close>;
  nothing there is \<^verbatim>\<open>FileNotFoundError\<close>.
\<close>

definition read_file :: "string \<Rightarrow> filesystem \<Rightarrow> exn + bytes" where
  "read_file name f =
     (if name = [] then Inl (Exc ''FileNotFoundError'')
      else (case map_of (files f) (parts name) of
              Some content \<Rightarrow>
                if wants_dir name then Inl (Exc ''NotADirectoryError'') else Inr content
            | None \<Rightarrow>
                if is_dir f (parts name) then Inl (Exc ''IsADirectoryError'')
                else if list_ex (is_file f) (prefixes (parts name))
                then Inl (Exc ''NotADirectoryError'')
                else Inl (Exc ''FileNotFoundError'')))"

text \<open>
  \<^verbatim>\<open>with open(name, "wb") as out: out.write(content)\<close>: the file is created or
  truncated and holds exactly \<open>content\<close> afterwards; its directory must exist.
\<close>

definition write_file :: "string \<Rightarrow> bytes \<Rightarrow> filesystem \<Rightarrow> exn + filesystem" where
  "write_file name content f =
     (if name = [] then Inl (Exc ''FileNotFoundError'')
      else if is_dir f (parts name) then Inl (Exc ''IsADirectoryError'')
      else if is_file f (butlast (parts name)) then Inl (Exc ''NotADirectoryError'')
      else if \<not> is_dir f (butlast (parts name)) then Inl (Exc ''FileNotFoundError'')
      else Inr (f\<lparr>files := (parts name, content) # files f\<rparr>))"

text \<open>
  \<^verbatim>\<open>os.rmdir\<close> refuses a path whose last component is \<^verbatim>\<open>.\<close> (\<^verbatim>\<open>EINVAL\<close>) and the root
  directory (\<^verbatim>\<open>EBUSY\<close>).
\<close>

definition rmdir_refused :: "string \<Rightarrow> bool" where
  "rmdir_refused name =
     (let ws = filter (\<lambda>w. w \<noteq> []) (split_slash name) in ws = [] \<or> last ws = ''.'')"

text \<open>
  \<open>inside p q\<close>: \<open>q\<close> lies strictly below the directory \<open>p\<close>. An absolute path does not
  lie below the working directory, whose own absolute path the model does not know.
\<close>

definition inside :: "path \<Rightarrow> path \<Rightarrow> bool" where
  "inside p q = (strict_prefix p q \<and> (p = [] \<longrightarrow> take 1 q \<noteq> [''/'']))"

text \<open>
  \<^verbatim>\<open>shutil.rmtree(name)\<close>: the content of the directory is removed, then the directory
  itself with \<^verbatim>\<open>os.rmdir(name)\<close>. Where \<^verbatim>\<open>os.rmdir\<close> refuses the path, the content is
  gone, the directory stays and the \<^verbatim>\<open>OSError\<close> is raised. A regular file at the path or
  in the place of an ancestor is \<^verbatim>\<open>NotADirectoryError\<close>; nothing there is
  \<^verbatim>\<open>FileNotFoundError\<close>; in both cases nothing is removed. The file system is returned
  with the outcome, since a raise can come after removals.
\<close>

definition rmtree :: "string \<Rightarrow> filesystem \<Rightarrow> (exn + unit) \<times> filesystem" where
  "rmtree name f =
     (if name = [] then (Inl (Exc ''FileNotFoundError''), f)
      else if is_dir f (parts name) then
        (if rmdir_refused name then
           (Inl (Exc ''OSError''),
            f\<lparr>dirs := filter (\<lambda>q. \<not> inside (parts name) q) (dirs f),
              files := filter (\<lambda>(q, _). \<not> inside (parts name) q) (files f)\<rparr>)
         else
           (Inr (),
            f\<lparr>dirs := filter (\<lambda>q. \<not> prefix (parts name) q) (dirs f),
              files := filter (\<lambda>(q, _). \<not> prefix (parts name) q) (files f)\<rparr>))
      else if list_ex (is_file f) (prefixes (parts name))
      then (Inl (Exc ''NotADirectoryError''), f)
      else (Inl (Exc ''FileNotFoundError''), f))"

section \<open>The object and its collaborators\<close>

text \<open>
  Modelled from the spec: the result container \<^verbatim>\<open>self.result\<close> (class of
  \<^verbatim>\<open>python_rucaptcha.core\<close>, not part of the module). Its four fields are the keys the
  module's docstrings show (\<^verbatim>\<open>captchaSolve\<close>, \<^verbatim>\<open>taskId\<close>, \<^verbatim>\<open>error\<close>, \<^verbatim>\<open>errorBody\<close>); the
  spec calls them solvedValue, taskId, error and errorDetail. \<open>response_dict\<close> is its
  \<^verbatim>\<open>.dict(exclude_none=...)\<close>: all fields in declaration order, without the fields that
  are \<^verbatim>\<open>None\<close> when \<open>exclude_none\<close> is set.
\<close>

record response =
  captchaSolve :: pyval
  taskId :: pyval
  error :: bool
  errorBody :: pyval

definition response_dict :: "bool \<Rightarrow> response \<Rightarrow> dict" where
  "response_dict exclude_none r =
     filter (\<lambda>(k, v). \<not> (exclude_none \<and> v = PNone))
       [(''captchaSolve'', captchaSolve r), (''taskId'', taskId r),
        (''error'', PBool (error r)), (''errorBody'', errorBody r)]"

text \<open>
  Modelled from the spec: the values of \<^verbatim>\<open>SaveFormatsEnm\<close> (enum of
  \<^verbatim>\<open>python_rucaptcha.core.enums\<close>, not part of the module); the docstring of
  \<^verbatim>\<open>__init__\<close> names them: \<^verbatim>\<open>'temp'\<close> and \<^verbatim>\<open>'const'\<close>.
\<close>

definition SaveFormatsEnm_TEMP :: string where
  "SaveFormatsEnm_TEMP = ''temp''"

definition SaveFormatsEnm_CONST :: string where
  "SaveFormatsEnm_CONST = ''const''"

definition NO_CAPTCHA_ERR :: string where
  "NO_CAPTCHA_ERR = ''You did not send any file, local link or URL.''"

text \<open>The attributes of an \<^verbatim>\<open>ImageCaptcha\<close> object.\<close>

record captcha =
  save_format :: string
  img_clearing :: bool
  img_path :: string
  image_name :: "string option"
  post_payload :: dict
  result :: response

type_synonym kwargs = dict

text \<open>
  Every call that leaves the module is recorded, in order: the two fetches, the two
  submissions (with the payload they are handed) and the four file-system calls.
\<close>

datatype event =
    EvUrlOpen string kwargs
  | EvAioUrlRead string kwargs
  | EvProcessingResponse kwargs dict
  | EvAioProcessingResponse dict
  | EvOpenRead string
  | EvMkdir string
  | EvOpenWrite string bytes
  | EvRmtree string

record world =
  fs :: filesystem
  uuid_calls :: nat
  trace :: "event list"

text \<open>
  The collaborators inherited from \<^verbatim>\<open>BaseCaptcha\<close> (not part of the module) are
  parameters: \<open>url_open\<close> is \<^verbatim>\<open>self.url_open(url=..., **kwargs).content\<close>,
  \<open>aio_url_read\<close> is \<^verbatim>\<open>await self.aio_url_read(url=..., **kwargs)\<close>; the two
  submissions read and update the object and return the result mapping.
  \<open>uuid4\<close> is the sequence of texts of the tokens \<^verbatim>\<open>uuid.uuid4()\<close> returns, by call.
\<close>

record collab =
  url_open :: "string \<Rightarrow> kwargs \<Rightarrow> exn + bytes"
  aio_url_read :: "string \<Rightarrow> kwargs \<Rightarrow> exn + bytes"
  processing_response :: "kwargs \<Rightarrow> captcha \<Rightarrow> (exn + dict) \<times> captcha"
  aio_processing_response :: "captcha \<Rightarrow> (exn + dict) \<times> captcha"
  uuid4 :: "nat \<Rightarrow> string"

definition log :: "event \<Rightarrow> world \<Rightarrow> world" where
  "log e w = w\<lparr>trace := trace w @ [e]\<rparr>"

text \<open>
  \<^verbatim>\<open>__init__\<close>: the base class's constructor leaves the payload and the result
  container (\<open>payload0\<close>, \<open>result0\<close>); the three options are stored as given.
\<close>

definition ImageCaptcha_init :: "string \<Rightarrow> bool \<Rightarrow> string \<Rightarrow> dict \<Rightarrow> response \<Rightarrow> captcha" where
  "ImageCaptcha_init save_fmt clearing path payload0 result0 =
     \<lparr>save_format = save_fmt, img_clearing = clearing, img_path = path,
      image_name = None, post_payload = payload0, result = result0\<rparr>"

section \<open>The methods of \<^verbatim>\<open>ImageCaptcha\<close>\<close>

text \<open>The name of a saved image: \<^verbatim>\<open>f"im-{uuid.uuid4()}.png"\<close>.\<close>

definition image_file_name :: "string \<Rightarrow> string" where
  "image_file_name token = ''im-'' @ token @ ''.png''"

definition image_const_saver ::
  "collab \<Rightarrow> bytes \<Rightarrow> string \<Rightarrow> captcha \<times> world \<Rightarrow> (exn + unit) \<times> captcha \<times> world" where
  "image_const_saver cl content path s =
     (case s of (c, w) \<Rightarrow>
        (case mkdir_parents (parts path) (fs w) of
           Inl e \<Rightarrow> (Inl e, c, log (EvMkdir path) w)
         | Inr f1 \<Rightarrow>
             (let w1 = (log (EvMkdir path) w)\<lparr>fs := f1, uuid_calls := Suc (uuid_calls w)\<rparr>;
                  name = image_file_name (uuid4 cl (uuid_calls w));
                  c1 = c\<lparr>image_name := Some name\<rparr>;
                  w2 = log (EvOpenWrite (os_path_join path name) content) w1
              in (case write_file (os_path_join path name) content f1 of
                    Inl e \<Rightarrow> (Inl e, c1, w2)
                  | Inr f2 \<Rightarrow> (Inr (), c1, w2\<lparr>fs := f2\<rparr>)))))"

definition local_image_captcha :: "string \<Rightarrow> world \<Rightarrow> (exn + bytes) \<times> world" where
  "local_image_captcha captcha_file w =
     (read_file captcha_file (fs w), log (EvOpenRead captcha_file) w)"

text \<open>\<^verbatim>\<open>self.post_payload.update({"body": base64.b64encode(content).decode("utf-8")})\<close>\<close>

definition set_body :: "bytes \<Rightarrow> captcha \<Rightarrow> captcha" where
  "set_body content c =
     c\<lparr>post_payload := AList.update ''body'' (PStr (b64encode content)) (post_payload c)\<rparr>"

text \<open>\<^verbatim>\<open>return self._processing_response(**kwargs)\<close>\<close>

definition call_processing_response ::
  "collab \<Rightarrow> kwargs \<Rightarrow> captcha \<times> world \<Rightarrow> (exn + dict) \<times> captcha \<times> world" where
  "call_processing_response cl kw s =
     (case s of (c, w) \<Rightarrow>
        (case processing_response cl kw c of
           (r, c') \<Rightarrow> (r, c', log (EvProcessingResponse kw (post_payload c)) w)))"

text \<open>\<^verbatim>\<open>return await self._aio_processing_response()\<close>\<close>

definition call_aio_processing_response ::
  "collab \<Rightarrow> captcha \<times> world \<Rightarrow> (exn + dict) \<times> captcha \<times> world" where
  "call_aio_processing_response cl s =
     (case s of (c, w) \<Rightarrow>
        (case aio_processing_response cl c of
           (r, c') \<Rightarrow> (r, c', log (EvAioProcessingResponse (post_payload c)) w)))"

definition captcha_handler ::
  "collab \<Rightarrow> string option \<Rightarrow> string option \<Rightarrow> bytes option \<Rightarrow> kwargs
     \<Rightarrow> captcha \<times> world \<Rightarrow> (exn + dict) \<times> captcha \<times> world" where
  "captcha_handler cl captcha_link captcha_file captcha_base64 kw s =
     (case s of (c, w) \<Rightarrow>
        (case truthy captcha_file of
           Some file \<Rightarrow>
             (case local_image_captcha file w of
                (Inl e, w1) \<Rightarrow> (Inl e, c, w1)
              | (Inr content, w1) \<Rightarrow> call_processing_response cl kw (set_body content c, w1))
         | None \<Rightarrow>
        (case truthy captcha_base64 of
           Some raw \<Rightarrow> call_processing_response cl kw (set_body raw c, w)
         | None \<Rightarrow>
        (case truthy captcha_link of
           Some link \<Rightarrow>
             (case url_open cl link kw of
                Inl e \<Rightarrow>
                  (if is_Exception e then
                     (let c1 = c\<lparr>result := (result c)\<lparr>error := True, errorBody := PExc e\<rparr>\<rparr>
                      in (Inr (response_dict True (result c1)), c1, log (EvUrlOpen link kw) w))
                   else (Inl e, c, log (EvUrlOpen link kw) w))
              | Inr content \<Rightarrow>
                  (if save_format c = SaveFormatsEnm_CONST then
                     (case image_const_saver cl content (img_path c) (c, log (EvUrlOpen link kw) w) of
                        (Inl e, c1, w1) \<Rightarrow> (Inl e, c1, w1)
                      | (Inr _, c1, w1) \<Rightarrow>
                          call_processing_response cl kw (set_body content c1, w1))
                   else call_processing_response cl kw
                          (set_body content c, log (EvUrlOpen link kw) w)))
         | None \<Rightarrow>
             (let c1 = c\<lparr>result := (result c)\<lparr>error := True, errorBody := PStr NO_CAPTCHA_ERR\<rparr>\<rparr>
              in (Inr (response_dict False (result c1)), c1, w))))))"

definition aio_captcha_handler ::
  "collab \<Rightarrow> string option \<Rightarrow> string option \<Rightarrow> bytes option \<Rightarrow> kwargs
     \<Rightarrow> captcha \<times> world \<Rightarrow> (exn + dict) \<times> captcha \<times> world" where
  "aio_captcha_handler cl captcha_link captcha_file captcha_base64 kw s =
     (case s of (c, w) \<Rightarrow>
        (case truthy captcha_file of
           Some file \<Rightarrow>
             (case local_image_captcha file w of
                (Inl e, w1) \<Rightarrow> (Inl e, c, w1)
              | (Inr content, w1) \<Rightarrow> call_aio_processing_response cl (set_body content c, w1))
         | None \<Rightarrow>
        (case truthy captcha_base64 of
           Some raw \<Rightarrow> call_aio_processing_response cl (set_body raw c, w)
         | None \<Rightarrow>
        (case truthy captcha_link of
           Some link \<Rightarrow>
             (case aio_url_read cl link kw of
                Inl e \<Rightarrow>
                  (if is_Exception e then
                     (let c1 = c\<lparr>result := (result c)\<lparr>error := True, errorBody := PExc e\<rparr>\<rparr>
                      in (Inr (response_dict True (result c1)), c1, log (EvAioUrlRead link kw) w))
                   else (Inl e, c, log (EvAioUrlRead link kw) w))
              | Inr content \<Rightarrow>
                  (if save_format c = SaveFormatsEnm_CONST then
                     (case image_const_saver cl content (img_path c) (c, log (EvAioUrlRead link kw) w) of
                        (Inl e, c1, w1) \<Rightarrow> (Inl e, c1, w1)
                      | (Inr _, c1, w1) \<Rightarrow>
                          call_aio_processing_response cl (set_body content c1, w1))
                   else call_aio_processing_response cl
                          (set_body content c, log (EvAioUrlRead link kw) w)))
         | None \<Rightarrow>
             (let c1 = c\<lparr>result := (result c)\<lparr>error := True, errorBody := PStr NO_CAPTCHA_ERR\<rparr>\<rparr>
              in (Inr (response_dict False (result c1)), c1, w))))))"

text \<open>\<^verbatim>\<open>__del__\<close>\<close>

definition captcha_del :: "captcha \<Rightarrow> world \<Rightarrow> (exn + unit) \<times> world" where
  "captcha_del c w =
     (if save_format c = SaveFormatsEnm_CONST \<and> img_clearing c then
        (case rmtree (img_path c) (fs w) of
           (r, f1) \<Rightarrow> (r, (log (EvRmtree (img_path c)) w)\<lparr>fs := f1\<rparr>))
      else (Inr (), w))"

text \<open>
  What a call leaves behind apart from the record of calls: its outcome, the object,
  the file system and the number of tokens drawn.
\<close>

definition observable :: "'r \<times> captcha \<times> world \<Rightarrow> 'r \<times> captcha \<times> filesystem \<times> nat" where
  "observable x = (case x of (r, c, w) \<Rightarrow> (r, c, fs w, uuid_calls w))"

section \<open>A concrete object, world and collaborators\<close>

text \<open>
  Used to run the methods on concrete inputs. The fetch fails with a connection error
  for \<^verbatim>\<open>http://bad.invalid\<close> and returns four bytes (the start of a PNG file)
  otherwise; the submission stores a solved value and a task identifier in the result
  container and returns it; \<open>uuid4\<close> yields two different tokens.
\<close>

definition png_bytes :: bytes where
  "png_bytes = [0x89, 0x50, 0x4E, 0x47]"

definition fetch0 :: "string \<Rightarrow> kwargs \<Rightarrow> exn + bytes" where
  "fetch0 url kw =
     (if url = ''http://bad.invalid'' then Inl (Exc ''ConnectionError'') else Inr png_bytes)"

definition submit0 :: "captcha \<Rightarrow> (exn + dict) \<times> captcha" where
  "submit0 c =
     (let r = (result c)\<lparr>captchaSolve := PStr ''W9H5K'', taskId := PStr ''73043008354''\<rparr>
      in (Inr (response_dict False r), c\<lparr>result := r\<rparr>))"

definition cl0 :: collab where
  "cl0 = \<lparr>url_open = fetch0, aio_url_read = fetch0,
          processing_response = (\<lambda>kw. submit0), aio_processing_response = submit0,
          uuid4 = (\<lambda>n. if n = 0 then ''1b4e28ba-2fa1-41d2-883f-0016d3cca427''
                        else ''6fa459ea-ee8a-4ca4-894e-db77e160355e'')\<rparr>"

definition result0 :: response where
  "result0 = \<lparr>captchaSolve = PNone, taskId = PNone, error = False, errorBody = PNone\<rparr>"

definition payload0 :: dict where
  "payload0 = [(''key'', PStr ''aa9011f31111181111168611f1151122''), (''method'', PStr ''base64'')]"

definition c_temp :: captcha where
  "c_temp = ImageCaptcha_init SaveFormatsEnm_TEMP True ''PythonRuCaptchaImages'' payload0 result0"

definition c_const :: captcha where
  "c_const = ImageCaptcha_init SaveFormatsEnm_CONST True ''PythonRuCaptchaImages'' payload0 result0"

definition w0 :: world where
  "w0 = \<lparr>fs = \<lparr>dirs = [[]], files = [([''sample.png''], png_bytes)]\<rparr>,
          uuid_calls = 0, trace = []\<rparr>"

text \<open>The world after one successful fetch in persistent mode.\<close>

definition w_cached :: world where
  "w_cached = snd (snd (captcha_handler cl0 (Some ''http://good'') None None [] (c_const, w0)))"

section \<open>Properties of the base64 codec\<close>

lemma distinct_alphabet: "distinct b64_alphabet"
  unfolding b64_alphabet_def by simp

lemma length_alphabet: "length b64_alphabet = 64"
  unfolding b64_alphabet_def by simp

lemma index_of_nth: "distinct xs \<Longrightarrow> n < length xs \<Longrightarrow> index_of (xs ! n) xs = n"
proof (induction xs arbitrary: n)
  case Nil then show ?case by simp
next
  case (Cons x xs)
  then show ?case by (cases n) auto
qed

lemma b64_index_char: "n < 64 \<Longrightarrow> b64_index (b64_char n) = Some n"
  unfolding b64_index_def b64_char_def
  using index_of_nth[OF distinct_alphabet, of n] by (simp add: length_alphabet)

lemma b64_char_not_pad: "n < 64 \<Longrightarrow> b64_char n \<noteq> CHR ''=''"
proof -
  assume "n < 64"
  have "CHR ''='' \<notin> set b64_alphabet" unfolding b64_alphabet_def by simp
  moreover have "b64_char n \<in> set b64_alphabet"
    unfolding b64_char_def using \<open>n < 64\<close> by (simp add: length_alphabet)
  ultimately show ?thesis by metis
qed

lemma word8_of_nat_eq: "m = unat (w::byte) \<Longrightarrow> word_of_nat m = w"
  by simp

lemma unat_byte_lt: "unat (w::byte) < 256"
  using unsigned_less[of w, where ?'a = nat] by simp

lemma sextet_hi: "a < 256 \<Longrightarrow> a div 4 < (64::nat)"
  by simp

lemma sextet_mid:
  assumes "y < (256::nat)"
  shows "x mod 4 * 16 + y div 16 < 64"
proof -
  from assms have "y div 16 < 16" by simp
  moreover have "x mod 4 < 4" by simp
  ultimately show ?thesis by linarith
qed

lemma sextet_low:
  assumes "z < (256::nat)"
  shows "y mod 16 * 4 + z div 64 < 64"
proof -
  from assms have "z div 64 < 4" by simp
  moreover have "y mod 16 < 16" by simp
  ultimately show ?thesis by linarith
qed

lemma octet_first:
  assumes "y < (256::nat)"
  shows "x div 4 * 4 + (x mod 4 * 16 + y div 16) div 16 = x"
proof -
  from assms have "y div 16 < 16" by simp
  then have "(x mod 4 * 16 + y div 16) div 16 = x mod 4" by simp
  then show ?thesis by simp
qed

lemma octet_second:
  assumes "y < (256::nat)" and "z < 256"
  shows "(x mod 4 * 16 + y div 16) mod 16 * 16 + (y mod 16 * 4 + z div 64) div 4 = y"
proof -
  from assms have "z div 64 < 4" by simp
  then have lo: "(y mod 16 * 4 + z div 64) div 4 = y mod 16" by simp
  from assms have "y div 16 < 16" by simp
  then have hi: "(x mod 4 * 16 + y div 16) mod 16 = y div 16" by simp
  show ?thesis using lo hi by simp
qed

lemma octet_third:
  assumes "z < (256::nat)"
  shows "(y mod 16 * 4 + z div 64) mod 4 * 64 + z mod 64 = z"
proof -
  from assms have "z div 64 < 4" by simp
  then have "(y mod 16 * 4 + z div 64) mod 4 = z div 64" by simp
  then show ?thesis by simp
qed

lemma b64decode_quad:
  assumes "i < 64" "j < 64" "k < 64" "l < 64"
  shows "b64decode (b64_char i # b64_char j # b64_char k # b64_char l # rest) =
         (case b64decode rest of
            Some bs \<Rightarrow> Some (word_of_nat (i * 4 + j div 16) # word_of_nat (j mod 16 * 16 + k div 4)
                        # word_of_nat (k mod 4 * 64 + l) # bs)
          | None \<Rightarrow> None)"
  using assms by (simp add: b64_index_char b64_char_not_pad split: option.splits)

lemma b64decode_b64encode: "b64decode (b64encode bs) = Some bs"
proof (induction bs rule: b64encode.induct)
  case 1
  show ?case by simp
next
  case (2 a)
  have a: "unat a < 256" by (rule unat_byte_lt)
  have "unat a mod 4 * 16 < 64" using sextet_mid[of 0 "unat a"] by simp
  moreover have "unat a div 4 * 4 + unat a mod 4 * 16 div 16 = unat a"
    using octet_first[of 0 "unat a"] by simp
  ultimately show ?case
    using a by (simp add: b64_index_char sextet_hi)
next
  case (3 a b)
  have a: "unat a < 256" and b: "unat b < 256" by (rule unat_byte_lt)+
  have lo: "unat b mod 16 * 4 < 64" using sextet_low[of 0 "unat b"] by simp
  have o2: "(unat a mod 4 * 16 + unat b div 16) mod 16 * 16 + unat b mod 16 * 4 div 4 = unat b"
    using octet_second[OF b, of 0 "unat a"] by simp
  show ?case
    using a b lo o2
    by (simp add: b64_index_char b64_char_not_pad sextet_hi sextet_mid octet_first)
next
  case (4 a b c rest)
  have a: "unat a < 256" and b: "unat b < 256" and c: "unat c < 256"
    by (rule unat_byte_lt)+
  have "b64decode (b64encode (a # b # c # rest)) =
        b64decode (b64_char (unat a div 4) # b64_char (unat a mod 4 * 16 + unat b div 16)
                   # b64_char (unat b mod 16 * 4 + unat c div 64) # b64_char (unat c mod 64)
                   # b64encode rest)"
    by simp
  also have "\<dots> = Some (word_of_nat (unat a) # word_of_nat (unat b) # word_of_nat (unat c) # rest)"
    using 4 a b c
    by (simp add: b64decode_quad sextet_hi sextet_mid sextet_low
                  octet_first octet_second octet_third del: b64decode.simps)
  finally show ?case by simp
qed

section \<open>Properties of the file system\<close>









lemma mkdir_parents_ancestors:
  assumes "mkdir_parents p f = Inr f'" and "\<not> is_dir f p" and "prefix q p"
  shows "is_dir f' q"
  using assms
  by (cases "is_dir f q") (auto simp: mkdir_parents_def is_dir_def split: if_splits)




lemma mkdir_parents_keeps_dirs:
  "mkdir_parents p f = Inr f' \<Longrightarrow> is_dir f q \<Longrightarrow> is_dir f' q"
  by (auto simp: mkdir_parents_def is_dir_def split: if_splits)



lemma write_file_dirs:
  "write_file name content f = Inr f' \<Longrightarrow> dirs f' = dirs f"
  by (auto simp: write_file_def split: if_splits)

lemma map_of_filter_key:
  "map_of (filter (\<lambda>(q, _). P q) xs) k = (if P k then map_of xs k else None)"
  by (induction xs) auto

lemma rmtree_succeeds:
  "name \<noteq> [] \<Longrightarrow> is_dir f (parts name) \<Longrightarrow> \<not> rmdir_refused name \<Longrightarrow>
   fst (rmtree name f) = Inr ()"
  by (simp add: rmtree_def)

lemma rmtree_removes:
  assumes "fst (rmtree name f) = Inr ()" and "prefix (parts name) q"
  shows "\<not> is_dir (snd (rmtree name f)) q" and "\<not> is_file (snd (rmtree name f)) q"
  using assms
  by (auto simp: rmtree_def is_dir_def is_file_def map_of_filter_key split: if_splits)

lemma rmtree_keeps:
  assumes "\<not> prefix (parts name) q"
  shows "is_dir (snd (rmtree name f)) q = is_dir f q"
    and "map_of (files (snd (rmtree name f))) q = map_of (files f) q"
  using assms
  by (auto simp: rmtree_def is_dir_def inside_def map_of_filter_key)

lemma rmtree_refused:
  assumes "name \<noteq> []" and "is_dir f (parts name)" and "rmdir_refused name"
  shows "fst (rmtree name f) = Inl (Exc ''OSError'')"
    and "is_dir (snd (rmtree name f)) (parts name)"
    and "inside (parts name) q \<Longrightarrow>
         \<not> is_dir (snd (rmtree name f)) q \<and> \<not> is_file (snd (rmtree name f)) q"
  using assms
  by (auto simp: rmtree_def is_dir_def is_file_def inside_def map_of_filter_key)

lemma rmtree_missing:
  "\<not> is_dir f (parts name) \<Longrightarrow> \<not> is_file f (parts name) \<Longrightarrow>
   rmtree name f =
     (Inl (Exc (if list_ex (is_file f) (prefixes (parts name)) then ''NotADirectoryError''
                else ''FileNotFoundError'')), f)"
  by (auto simp: rmtree_def parts_def)

section \<open>Properties of the handlers\<close>

lemmas ex_defs = cl0_def fetch0_def submit0_def result0_def payload0_def c_temp_def c_const_def
  w0_def png_bytes_def ImageCaptcha_init_def SaveFormatsEnm_TEMP_def SaveFormatsEnm_CONST_def
  NO_CAPTCHA_ERR_def

lemmas run_defs = captcha_handler_def aio_captcha_handler_def truthy_def image_const_saver_def
  image_file_name_def
  local_image_captcha_def mkdir_parents_def read_file_def write_file_def rmtree_def is_dir_def
  is_file_def parts_def os_path_join_def log_def call_processing_response_def wants_dir_def
  rmdir_refused_def inside_def
  call_aio_processing_response_def set_body_def response_dict_def captcha_del_def Let_def

lemma trace_submit:
  "trace (snd (snd (call_processing_response cl kw (c, w)))) =
   trace w @ [EvProcessingResponse kw (post_payload c)]"
  by (simp add: call_processing_response_def log_def split: prod.splits)

lemma trace_aio_submit:
  "trace (snd (snd (call_aio_processing_response cl (c, w)))) =
   trace w @ [EvAioProcessingResponse (post_payload c)]"
  by (simp add: call_aio_processing_response_def log_def split: prod.splits)



lemma body_set_body:
  "map_of (post_payload (set_body content c)) ''body'' = Some (PStr (b64encode content))"
  by (simp add: set_body_def update_conv')

lemma file_source_used:
  assumes "truthy file = Some f" and "read_file f (fs w) = Inr content"
  shows "trace (snd (snd (captcha_handler cl link file raw kw (c, w)))) =
           trace w @ [EvOpenRead f, EvProcessingResponse kw (post_payload (set_body content c))]"
    and "trace (snd (snd (aio_captcha_handler cl link file raw kw (c, w)))) =
           trace w @ [EvOpenRead f, EvAioProcessingResponse (post_payload (set_body content c))]"
  using assms
  by (simp_all add: captcha_handler_def aio_captcha_handler_def local_image_captcha_def
                    trace_submit trace_aio_submit log_def)

lemma raw_source_used:
  assumes "truthy file = None" and "truthy raw = Some bs"
  shows "trace (snd (snd (captcha_handler cl link file raw kw (c, w)))) =
           trace w @ [EvProcessingResponse kw (post_payload (set_body bs c))]"
    and "trace (snd (snd (aio_captcha_handler cl link file raw kw (c, w)))) =
           trace w @ [EvAioProcessingResponse (post_payload (set_body bs c))]"
  using assms
  by (simp_all add: captcha_handler_def aio_captcha_handler_def trace_submit trace_aio_submit)

lemma zero_input:
  assumes "truthy file = None" "truthy raw = None" "truthy link = None"
  shows "captcha_handler cl link file raw kw (c, w) =
           (Inr [(''captchaSolve'', captchaSolve (result c)), (''taskId'', taskId (result c)),
                 (''error'', PBool True), (''errorBody'', PStr NO_CAPTCHA_ERR)],
            c\<lparr>result := (result c)\<lparr>error := True, errorBody := PStr NO_CAPTCHA_ERR\<rparr>\<rparr>, w)"
    and "aio_captcha_handler cl link file raw kw (c, w) =
           (Inr [(''captchaSolve'', captchaSolve (result c)), (''taskId'', taskId (result c)),
                 (''error'', PBool True), (''errorBody'', PStr NO_CAPTCHA_ERR)],
            c\<lparr>result := (result c)\<lparr>error := True, errorBody := PStr NO_CAPTCHA_ERR\<rparr>\<rparr>, w)"
  using assms
  by (simp_all add: captcha_handler_def aio_captcha_handler_def response_dict_def)

lemma fetch_failure:
  assumes "truthy file = None" "truthy raw = None" "truthy link = Some u" "is_Exception e"
  shows "url_open cl u kw = Inl e \<Longrightarrow>
         captcha_handler cl link file raw kw (c, w) =
           (Inr (filter (\<lambda>(k, v). v \<noteq> PNone)
                   [(''captchaSolve'', captchaSolve (result c)), (''taskId'', taskId (result c)),
                    (''error'', PBool True), (''errorBody'', PExc e)]),
            c\<lparr>result := (result c)\<lparr>error := True, errorBody := PExc e\<rparr>\<rparr>,
            log (EvUrlOpen u kw) w)"
    and "aio_url_read cl u kw = Inl e \<Longrightarrow>
         aio_captcha_handler cl link file raw kw (c, w) =
           (Inr (filter (\<lambda>(k, v). v \<noteq> PNone)
                   [(''captchaSolve'', captchaSolve (result c)), (''taskId'', taskId (result c)),
                    (''error'', PBool True), (''errorBody'', PExc e)]),
            c\<lparr>result := (result c)\<lparr>error := True, errorBody := PExc e\<rparr>\<rparr>,
            log (EvAioUrlRead u kw) w)"
  using assms
  by (simp_all add: captcha_handler_def aio_captcha_handler_def response_dict_def)

lemma observable_saver:
  "fs w = fs w' \<Longrightarrow> uuid_calls w = uuid_calls w' \<Longrightarrow>
   observable (image_const_saver cl content p (c, w)) = observable (image_const_saver cl content p (c, w'))"
  by (simp add: observable_def image_const_saver_def log_def Let_def split: sum.splits)

lemma observable_submit:
  "fs w = fs w' \<Longrightarrow> uuid_calls w = uuid_calls w' \<Longrightarrow>
   processing_response cl kw c = aio_processing_response cl c \<Longrightarrow>
   observable (call_processing_response cl kw (c, w)) = observable (call_aio_processing_response cl (c, w'))"
  by (simp add: observable_def call_processing_response_def call_aio_processing_response_def log_def
           split: prod.splits)

lemma observable_handlers:
  assumes fetch: "\<And>url. url_open cl url kw = aio_url_read cl url kw"
      and submit: "\<And>c'. processing_response cl kw c' = aio_processing_response cl c'"
  shows "observable (captcha_handler cl link file raw kw (c, w)) =
         observable (aio_captcha_handler cl link file raw kw (c, w))"
proof (cases "truthy file")
  case (Some f)
  show ?thesis
  proof (cases "local_image_captcha f w")
    case (Pair r w1)
    show ?thesis
    proof (cases r)
      case (Inl e)
      with Some Pair show ?thesis by (simp add: captcha_handler_def aio_captcha_handler_def)
    next
      case (Inr content)
      with Some Pair show ?thesis
        by (simp add: captcha_handler_def aio_captcha_handler_def observable_submit[OF refl refl submit])
    qed
  qed
next
  case None
  note nofile = None
  show ?thesis
  proof (cases "truthy raw")
    case (Some bs)
    with nofile show ?thesis
      by (simp add: captcha_handler_def aio_captcha_handler_def observable_submit[OF refl refl submit])
  next
    case None
    note noraw = None
    show ?thesis
    proof (cases "truthy link")
      case None
      with nofile noraw show ?thesis by (simp add: captcha_handler_def aio_captcha_handler_def)
    next
      case (Some u)
      show ?thesis
      proof (cases "aio_url_read cl u kw")
        case (Inl e)
        with nofile noraw Some show ?thesis
          by (simp add: captcha_handler_def aio_captcha_handler_def fetch observable_def log_def)
      next
        case (Inr content)
        show ?thesis
        proof (cases "save_format c = SaveFormatsEnm_CONST")
          case False
          have "observable (call_processing_response cl kw (set_body content c, log (EvUrlOpen u kw) w)) =
                observable (call_aio_processing_response cl (set_body content c, log (EvAioUrlRead u kw) w))"
            by (rule observable_submit) (simp_all add: log_def submit)
          with False nofile noraw Some Inr show ?thesis
            by (simp add: captcha_handler_def aio_captcha_handler_def fetch)
        next
          case True
          let ?S = "image_const_saver cl content (img_path c) (c, log (EvUrlOpen u kw) w)"
          let ?A = "image_const_saver cl content (img_path c) (c, log (EvAioUrlRead u kw) w)"
          have eq: "observable ?S = observable ?A" by (rule observable_saver) (simp_all add: log_def)
          obtain r1 c1 w1 where S: "?S = (r1, c1, w1)" by (cases ?S)
          obtain r2 c2 w2 where A: "?A = (r2, c2, w2)" by (cases ?A)
          from eq S A have same: "r2 = r1" "c2 = c1" "fs w2 = fs w1" "uuid_calls w2 = uuid_calls w1"
            by (simp_all add: observable_def)
          show ?thesis
          proof (cases r1)
            case (Inl e)
            with nofile noraw Some Inr True S A same show ?thesis
              by (simp add: captcha_handler_def aio_captcha_handler_def fetch observable_def)
          next
            case (Inr u1)
            have "observable (call_processing_response cl kw (set_body content c1, w1)) =
                  observable (call_aio_processing_response cl (set_body content c1, w2))"
              by (rule observable_submit) (simp_all add: same submit)
            with Inr nofile noraw Some \<open>aio_url_read cl u kw = Inr content\<close> True S A same
            show ?thesis
              by (simp add: captcha_handler_def aio_captcha_handler_def fetch)
          qed
        qed
      qed
    qed
  qed
qed

lemma response_dict_all_keys:
  "map fst (response_dict False r) = [''captchaSolve'', ''taskId'', ''error'', ''errorBody'']"
  by (simp add: response_dict_def)

lemma response_dict_no_None: "PNone \<notin> snd ` set (response_dict True r)"
  by (auto simp: response_dict_def)

lemma response_dict_exclude:
  "response_dict True r = filter (\<lambda>(k, v). v \<noteq> PNone) (response_dict False r)"
  by (simp add: response_dict_def)




lemma image_const_saver_mkdir_fails:
  "mkdir_parents (parts path) (fs w) = Inl e \<Longrightarrow>
   image_const_saver cl content path (c, w) = (Inl e, c, log (EvMkdir path) w)"
  by (simp add: image_const_saver_def)

lemma image_const_saver_name:
  "mkdir_parents (parts path) (fs w) = Inr f1 \<Longrightarrow>
   image_name (fst (snd (image_const_saver cl content path (c, w)))) =
     Some (image_file_name (uuid4 cl (uuid_calls w)))"
  by (simp add: image_const_saver_def Let_def split: sum.splits)








lemma w_cached_eq:
  "w_cached =
     \<lparr>fs = \<lparr>dirs = [[], [''PythonRuCaptchaImages'']],
             files = [([''PythonRuCaptchaImages'', ''im-1b4e28ba-2fa1-41d2-883f-0016d3cca427.png''],
                       png_bytes),
                      ([''sample.png''], png_bytes)]\<rparr>,
      uuid_calls = 1,
      trace = [EvUrlOpen ''http://good'' [], EvMkdir ''PythonRuCaptchaImages'',
               EvOpenWrite ''PythonRuCaptchaImages/im-1b4e28ba-2fa1-41d2-883f-0016d3cca427.png''
                 png_bytes,
               EvProcessingResponse [] (payload0 @ [(''body'', PStr ''iVBORw=='')])]\<rparr>"
  by (simp add: w_cached_def run_defs ex_defs b64_char_def b64_alphabet_def)

lemma parts_default_dir: "parts ''PythonRuCaptchaImages'' = [''PythonRuCaptchaImages'']"
  by (simp add: parts_def)

section \<open>The claims\<close>

text \<open>
  C1. Given the same arguments, the same object and world, a fetch collaborator that
  answers the blocking and the non-blocking call alike and a submission collaborator
  that does so too, \<open>captcha_handler\<close> and \<open>aio_captcha_handler\<close> return the same
  result mapping (or raise the same exception), and leave the same object, the same
  file system and the same number of drawn tokens.
\<close>

theorem handlers_agree:
  assumes "\<And>url. url_open cl url kw = aio_url_read cl url kw"
      and "\<And>c'. processing_response cl kw c' = aio_processing_response cl c'"
  shows "fst (captcha_handler cl link file raw kw (c, w)) =
           fst (aio_captcha_handler cl link file raw kw (c, w)) \<and>
         observable (captcha_handler cl link file raw kw (c, w)) =
           observable (aio_captcha_handler cl link file raw kw (c, w))"
proof -
  have eq: "observable (captcha_handler cl link file raw kw (c, w)) =
            observable (aio_captcha_handler cl link file raw kw (c, w))"
    using assms by (rule observable_handlers)
  then have "fst (observable (captcha_handler cl link file raw kw (c, w))) =
             fst (observable (aio_captcha_handler cl link file raw kw (c, w)))"
    by simp
  then have "fst (captcha_handler cl link file raw kw (c, w)) =
             fst (aio_captcha_handler cl link file raw kw (c, w))"
    by (simp add: observable_def split: prod.splits)
  with eq show ?thesis by simp
qed

theorem handlers_agree_witness:
  "(\<forall>url. url_open cl0 url [] = aio_url_read cl0 url []) \<and>
   (\<forall>c'. processing_response cl0 [] c' = aio_processing_response cl0 c') \<and>
   fst (captcha_handler cl0 (Some ''http://good'') None None [] (c_const, w0)) =
     fst (aio_captcha_handler cl0 (Some ''http://good'') None None [] (c_const, w0)) \<and>
   fst (aio_captcha_handler cl0 (Some ''http://good'') None None [] (c_const, w0)) =
     Inr [(''captchaSolve'', PStr ''W9H5K''), (''taskId'', PStr ''73043008354''),
          (''error'', PBool False), (''errorBody'', PNone)]"
proof -
  have f: "\<And>url. url_open cl0 url [] = aio_url_read cl0 url []"
    by (simp add: cl0_def)
  have s: "\<And>c'. processing_response cl0 [] c' = aio_processing_response cl0 c'"
    by (simp add: cl0_def)
  have v: "fst (aio_captcha_handler cl0 (Some ''http://good'') None None [] (c_const, w0)) =
     Inr [(''captchaSolve'', PStr ''W9H5K''), (''taskId'', PStr ''73043008354''),
          (''error'', PBool False), (''errorBody'', PNone)]"
    by (simp add: aio_captcha_handler_def truthy_def image_const_saver_def image_file_name_def
          mkdir_parents_def
          write_file_def is_dir_def is_file_def parts_def os_path_join_def log_def
          call_aio_processing_response_def set_body_def response_dict_def Let_def ex_defs)
  from handlers_agree[of cl0 "[]", OF f s] f s v show ?thesis by simp
qed

text \<open>
  C2. Which source a handler uses depends only on which of the three parameters are
  true values. With a non-empty file path, the call equals the call with the file path
  alone, whatever the raw bytes and the URL are; the file is read and its content goes
  to the submission, and nothing is fetched. With no file path and non-empty raw bytes,
  the call equals the call with the raw bytes alone, whatever the URL is; the raw bytes
  go to the submission and nothing is read or fetched. Both handlers.
\<close>

theorem source_precedence:
  "(truthy file \<noteq> None \<longrightarrow>
      captcha_handler cl link file raw kw (c, w) = captcha_handler cl None file None kw (c, w) \<and>
      aio_captcha_handler cl link file raw kw (c, w) =
        aio_captcha_handler cl None file None kw (c, w)) \<and>
   (truthy file = None \<and> truthy raw \<noteq> None \<longrightarrow>
      captcha_handler cl link file raw kw (c, w) = captcha_handler cl None None raw kw (c, w) \<and>
      aio_captcha_handler cl link file raw kw (c, w) =
        aio_captcha_handler cl None None raw kw (c, w)) \<and>
   (truthy file = Some f \<and> read_file f (fs w) = Inr content \<longrightarrow>
      trace (snd (snd (captcha_handler cl link file raw kw (c, w)))) =
        trace w @ [EvOpenRead f, EvProcessingResponse kw (post_payload (set_body content c))] \<and>
      trace (snd (snd (aio_captcha_handler cl link file raw kw (c, w)))) =
        trace w @ [EvOpenRead f, EvAioProcessingResponse (post_payload (set_body content c))]) \<and>
   (truthy file = None \<and> truthy raw = Some bs \<longrightarrow>
      trace (snd (snd (captcha_handler cl link file raw kw (c, w)))) =
        trace w @ [EvProcessingResponse kw (post_payload (set_body bs c))] \<and>
      trace (snd (snd (aio_captcha_handler cl link file raw kw (c, w)))) =
        trace w @ [EvAioProcessingResponse (post_payload (set_body bs c))])"
proof -
  have "truthy file \<noteq> None \<Longrightarrow>
      captcha_handler cl link file raw kw (c, w) = captcha_handler cl None file None kw (c, w) \<and>
      aio_captcha_handler cl link file raw kw (c, w) =
        aio_captcha_handler cl None file None kw (c, w)"
    by (auto simp: captcha_handler_def aio_captcha_handler_def)
  moreover have "truthy file = None \<Longrightarrow> truthy raw \<noteq> None \<Longrightarrow>
      captcha_handler cl link file raw kw (c, w) = captcha_handler cl None None raw kw (c, w) \<and>
      aio_captcha_handler cl link file raw kw (c, w) =
        aio_captcha_handler cl None None raw kw (c, w)"
    by (auto simp: captcha_handler_def aio_captcha_handler_def truthy_def)
  moreover have "truthy file = Some f \<and> read_file f (fs w) = Inr content \<longrightarrow>
      trace (snd (snd (captcha_handler cl link file raw kw (c, w)))) =
        trace w @ [EvOpenRead f, EvProcessingResponse kw (post_payload (set_body content c))] \<and>
      trace (snd (snd (aio_captcha_handler cl link file raw kw (c, w)))) =
        trace w @ [EvOpenRead f, EvAioProcessingResponse (post_payload (set_body content c))]"
    by (simp add: file_source_used)
  moreover have "truthy file = None \<and> truthy raw = Some bs \<longrightarrow>
      trace (snd (snd (captcha_handler cl link file raw kw (c, w)))) =
        trace w @ [EvProcessingResponse kw (post_payload (set_body bs c))] \<and>
      trace (snd (snd (aio_captcha_handler cl link file raw kw (c, w)))) =
        trace w @ [EvAioProcessingResponse (post_payload (set_body bs c))]"
    by (simp add: raw_source_used)
  ultimately show ?thesis by blast
qed

theorem source_precedence_witness:
  "truthy (Some ''sample.png'') = Some ''sample.png'' \<and>
   read_file ''sample.png'' (fs w0) = Inr png_bytes \<and>
   captcha_handler cl0 (Some ''http://good'') (Some ''sample.png'') (Some [1, 2]) [] (c_const, w0) =
     captcha_handler cl0 None (Some ''sample.png'') None [] (c_const, w0) \<and>
   trace (snd (snd (captcha_handler cl0 (Some ''http://good'') (Some ''sample.png'') (Some [1, 2])
                      [] (c_const, w0)))) =
     [EvOpenRead ''sample.png'',
      EvProcessingResponse [] (payload0 @ [(''body'', PStr ''iVBORw=='')])] \<and>
   truthy (Some ([] :: string)) = None \<and> truthy (Some [1, 2 :: byte]) = Some [1, 2] \<and>
   aio_captcha_handler cl0 (Some ''http://good'') (Some '''') (Some [1, 2]) [] (c_const, w0) =
     aio_captcha_handler cl0 None None (Some [1, 2]) [] (c_const, w0) \<and>
   trace (snd (snd (aio_captcha_handler cl0 (Some ''http://good'') (Some '''') (Some [1, 2])
                      [] (c_const, w0)))) =
     [EvAioProcessingResponse (payload0 @ [(''body'', PStr ''AQI='')])]"
proof -
  have t1: "truthy (Some ''sample.png'') = Some ''sample.png''" by (simp add: truthy_def)
  have r1: "read_file ''sample.png'' (fs w0) = Inr png_bytes" by (simp add: run_defs ex_defs)
  have t2: "truthy (Some ([] :: string)) = None" by (simp add: truthy_def)
  have t3: "truthy (Some [1, 2 :: byte]) = Some [1, 2]" by (simp add: truthy_def)
  have b1: "post_payload (set_body png_bytes c_const) = payload0 @ [(''body'', PStr ''iVBORw=='')]"
    by (simp add: set_body_def ex_defs b64_char_def b64_alphabet_def)
  have b2: "post_payload (set_body [1, 2] c_const) = payload0 @ [(''body'', PStr ''AQI='')]"
    by (simp add: set_body_def ex_defs b64_char_def b64_alphabet_def)
  have w: "trace w0 = []" by (simp add: w0_def)
  note A = source_precedence[of "Some ''sample.png''" cl0 "Some ''http://good''" "Some [1, 2]" "[]"
         c_const w0 "''sample.png''" png_bytes "[1, 2]"]
  note B = source_precedence[of "Some ''''" cl0 "Some ''http://good''" "Some [1, 2]" "[]"
         c_const w0 "''sample.png''" png_bytes "[1, 2]"]
  have a1: "captcha_handler cl0 (Some ''http://good'') (Some ''sample.png'') (Some [1, 2]) []
          (c_const, w0) =
        captcha_handler cl0 None (Some ''sample.png'') None [] (c_const, w0)"
    using t1 A by simp
  have "trace (snd (snd (captcha_handler cl0 (Some ''http://good'') (Some ''sample.png'')
                      (Some [1, 2]) [] (c_const, w0)))) =
     trace w0 @ [EvOpenRead ''sample.png'',
      EvProcessingResponse [] (post_payload (set_body png_bytes c_const))]"
    using A t1 r1 by blast
  then have a2: "trace (snd (snd (captcha_handler cl0 (Some ''http://good'') (Some ''sample.png'')
                      (Some [1, 2]) [] (c_const, w0)))) =
     [EvOpenRead ''sample.png'',
      EvProcessingResponse [] (payload0 @ [(''body'', PStr ''iVBORw=='')])]"
    by (simp only: b1 w append_Nil)
  have a3: "aio_captcha_handler cl0 (Some ''http://good'') (Some '''') (Some [1, 2]) []
                   (c_const, w0) =
                 aio_captcha_handler cl0 None None (Some [1, 2]) [] (c_const, w0)"
    using t2 t3 B by simp
  have "trace (snd (snd (aio_captcha_handler cl0 (Some ''http://good'') (Some '''')
                      (Some [1, 2]) [] (c_const, w0)))) =
     trace w0 @ [EvAioProcessingResponse (post_payload (set_body [1, 2] c_const))]"
    using B t2 t3 by blast
  then have a4: "trace (snd (snd (aio_captcha_handler cl0 (Some ''http://good'') (Some '''')
                      (Some [1, 2]) [] (c_const, w0)))) =
     [EvAioProcessingResponse (payload0 @ [(''body'', PStr ''AQI='')])]"
    by (simp only: b2 w append_Nil)
  from t1 r1 a1 a2 t2 t3 a3 a4 show ?thesis by blast
qed

text \<open>
  C3. With no file path, no raw bytes and no URL (each absent or empty), either handler
  returns the result mapping with \<^verbatim>\<open>error\<close> true and \<^verbatim>\<open>errorBody\<close> the fixed message
  \<^verbatim>\<open>You did not send any file, local link or URL.\<close>; the world is the one it started
  from: no fetch, no submission and no file-system call was made.
\<close>

theorem no_input_error:
  assumes "truthy file = None" and "truthy raw = None" and "truthy link = None"
  shows "captcha_handler cl link file raw kw (c, w) =
           (Inr [(''captchaSolve'', captchaSolve (result c)), (''taskId'', taskId (result c)),
                 (''error'', PBool True),
                 (''errorBody'', PStr ''You did not send any file, local link or URL.'')],
            c\<lparr>result := (result c)\<lparr>error := True, errorBody := PStr NO_CAPTCHA_ERR\<rparr>\<rparr>, w) \<and>
         aio_captcha_handler cl link file raw kw (c, w) =
           (Inr [(''captchaSolve'', captchaSolve (result c)), (''taskId'', taskId (result c)),
                 (''error'', PBool True),
                 (''errorBody'', PStr ''You did not send any file, local link or URL.'')],
            c\<lparr>result := (result c)\<lparr>error := True, errorBody := PStr NO_CAPTCHA_ERR\<rparr>\<rparr>, w)"
  using zero_input[OF assms, of cl kw c w] by (simp add: NO_CAPTCHA_ERR_def)

theorem no_input_error_witness:
  "truthy (None :: string option) = None \<and> truthy (Some ([] :: bytes)) = None \<and>
   truthy (Some ([] :: string)) = None \<and>
   captcha_handler cl0 (Some '''') None (Some []) [] (c_const, w0) =
     (Inr [(''captchaSolve'', PNone), (''taskId'', PNone), (''error'', PBool True),
           (''errorBody'', PStr ''You did not send any file, local link or URL.'')],
      c_const\<lparr>result := result0\<lparr>error := True, errorBody := PStr NO_CAPTCHA_ERR\<rparr>\<rparr>, w0)"
proof -
  have t1: "truthy (None :: string option) = None" by (simp add: truthy_def)
  have t2: "truthy (Some ([] :: bytes)) = None" by (simp add: truthy_def)
  have t3: "truthy (Some ([] :: string)) = None" by (simp add: truthy_def)
  have r: "result c_const = result0" by (simp add: ex_defs)
  from no_input_error[OF t1 t2 t3, of cl0 "[]" c_const w0] t1 t2 t3 r
  show ?thesis by (simp add: result0_def)
qed

text \<open>
  C4. When only a URL is supplied and the fetch raises an exception (an instance of
  \<^verbatim>\<open>Exception\<close>), either handler returns normally: the result mapping has
  \<^verbatim>\<open>error\<close> true and \<^verbatim>\<open>errorBody\<close> the exception that was caught. The world afterwards
  differs from the one before by the record of the fetch alone: the file system is
  unchanged whatever the storage mode, and no submission was made.
\<close>

theorem fetch_failure_absorbed:
  assumes "truthy file = None" and "truthy raw = None" and "truthy link = Some u"
      and "is_Exception e"
  shows "(url_open cl u kw = Inl e \<longrightarrow>
            fst (captcha_handler cl link file raw kw (c, w)) =
              Inr (filter (\<lambda>(k, v). v \<noteq> PNone)
                     [(''captchaSolve'', captchaSolve (result c)), (''taskId'', taskId (result c)),
                      (''error'', PBool True), (''errorBody'', PExc e)]) \<and>
            snd (snd (captcha_handler cl link file raw kw (c, w))) = log (EvUrlOpen u kw) w) \<and>
         (aio_url_read cl u kw = Inl e \<longrightarrow>
            fst (aio_captcha_handler cl link file raw kw (c, w)) =
              Inr (filter (\<lambda>(k, v). v \<noteq> PNone)
                     [(''captchaSolve'', captchaSolve (result c)), (''taskId'', taskId (result c)),
                      (''error'', PBool True), (''errorBody'', PExc e)]) \<and>
            snd (snd (aio_captcha_handler cl link file raw kw (c, w))) = log (EvAioUrlRead u kw) w) \<and>
         map_of (filter (\<lambda>(k, v). v \<noteq> PNone)
                   [(''captchaSolve'', captchaSolve (result c)), (''taskId'', taskId (result c)),
                    (''error'', PBool True), (''errorBody'', PExc e)]) ''error'' = Some (PBool True) \<and>
         map_of (filter (\<lambda>(k, v). v \<noteq> PNone)
                   [(''captchaSolve'', captchaSolve (result c)), (''taskId'', taskId (result c)),
                    (''error'', PBool True), (''errorBody'', PExc e)]) ''errorBody'' = Some (PExc e) \<and>
         fs (log (EvUrlOpen u kw) w) = fs w \<and> fs (log (EvAioUrlRead u kw) w) = fs w \<and>
         trace (log (EvUrlOpen u kw) w) = trace w @ [EvUrlOpen u kw] \<and>
         trace (log (EvAioUrlRead u kw) w) = trace w @ [EvAioUrlRead u kw]"
  using fetch_failure[OF assms, of cl kw c w]
  by (simp add: log_def)

theorem fetch_failure_absorbed_witness:
  "truthy (None :: string option) = None \<and> truthy (None :: bytes option) = None \<and>
   truthy (Some ''http://bad.invalid'') = Some ''http://bad.invalid'' \<and>
   is_Exception (Exc ''ConnectionError'') \<and>
   url_open cl0 ''http://bad.invalid'' [] = Inl (Exc ''ConnectionError'') \<and>
   save_format c_const = SaveFormatsEnm_CONST \<and>
   fst (captcha_handler cl0 (Some ''http://bad.invalid'') None None [] (c_const, w0)) =
     Inr [(''error'', PBool True), (''errorBody'', PExc (Exc ''ConnectionError''))] \<and>
   snd (snd (captcha_handler cl0 (Some ''http://bad.invalid'') None None [] (c_const, w0))) =
     w0\<lparr>trace := [EvUrlOpen ''http://bad.invalid'' []]\<rparr>"
proof -
  have t1: "truthy (None :: string option) = None" by (simp add: truthy_def)
  have t2: "truthy (None :: bytes option) = None" by (simp add: truthy_def)
  have t3: "truthy (Some ''http://bad.invalid'') = Some ''http://bad.invalid''"
    by (simp add: truthy_def)
  have e: "is_Exception (Exc ''ConnectionError'')" by simp
  have f: "url_open cl0 ''http://bad.invalid'' [] = Inl (Exc ''ConnectionError'')"
    by (simp add: cl0_def fetch0_def)
  have m: "save_format c_const = SaveFormatsEnm_CONST" by (simp add: ex_defs)
  have r: "result c_const = result0" by (simp add: ex_defs)
  have l: "log (EvUrlOpen ''http://bad.invalid'' []) w0 =
           w0\<lparr>trace := [EvUrlOpen ''http://bad.invalid'' []]\<rparr>"
    by (simp add: log_def w0_def)
  from f r l fetch_failure_absorbed[OF t1 t2 t3 e, of cl0 "[]" c_const w0] t1 t2 t3 e m
  show ?thesis by (simp add: result0_def)
qed

text \<open>
  C5. When the raw bytes are the source (no file path, non-empty raw bytes), the payload
  handed to the submission holds, under the key \<^verbatim>\<open>body\<close>, the base64 text of exactly
  those bytes, and decoding that text gives the bytes back. Both handlers.
\<close>

theorem raw_bytes_body:
  assumes "truthy file = None" and "truthy raw = Some bs"
  shows "trace (snd (snd (captcha_handler cl link file raw kw (c, w)))) =
           trace w @ [EvProcessingResponse kw
                        (AList.update ''body'' (PStr (b64encode bs)) (post_payload c))] \<and>
         trace (snd (snd (aio_captcha_handler cl link file raw kw (c, w)))) =
           trace w @ [EvAioProcessingResponse
                        (AList.update ''body'' (PStr (b64encode bs)) (post_payload c))] \<and>
         map_of (AList.update ''body'' (PStr (b64encode bs)) (post_payload c)) ''body'' =
           Some (PStr (b64encode bs)) \<and>
         b64decode (b64encode bs) = Some bs"
  using raw_source_used[OF assms, of cl link kw c w] body_set_body[of bs c]
  by (simp add: set_body_def b64decode_b64encode)

theorem raw_bytes_body_witness:
  "truthy (None :: string option) = None \<and> truthy (Some png_bytes) = Some png_bytes \<and>
   trace (snd (snd (captcha_handler cl0 None None (Some png_bytes) [] (c_temp, w0)))) =
     [EvProcessingResponse [] (payload0 @ [(''body'', PStr ''iVBORw=='')])] \<and>
   b64encode png_bytes = ''iVBORw=='' \<and> b64decode ''iVBORw=='' = Some png_bytes"
proof -
  have t1: "truthy (None :: string option) = None" by (simp add: truthy_def)
  have t2: "truthy (Some png_bytes) = Some png_bytes" by (simp add: truthy_def png_bytes_def)
  have e: "b64encode png_bytes = ''iVBORw==''"
    by (simp add: png_bytes_def b64_char_def b64_alphabet_def)
  have p: "post_payload c_temp = payload0" by (simp add: ex_defs)
  have u: "AList.update ''body'' (PStr ''iVBORw=='') payload0 =
           payload0 @ [(''body'', PStr ''iVBORw=='')]"
    by (simp add: payload0_def)
  have w: "trace w0 = []" by (simp add: w0_def)
  from raw_bytes_body[OF t1 t2, of cl0 None "[]" c_temp w0] t1 t2
  show ?thesis by (simp add: e p u w)
qed

text \<open>
  C6, as stated, fails: the zero-input result of a fresh object carries
  \<^verbatim>\<open>captchaSolve\<close> and \<^verbatim>\<open>taskId\<close> as explicit \<^verbatim>\<open>None\<close> (the call is \<^verbatim>\<open>self.result.dict()\<close>),
  and it is the result of a failed fetch that leaves them out
  (\<^verbatim>\<open>self.result.dict(exclude_none=True)\<close>).
\<close>

theorem omit_unset_counterexample:
  "fst (captcha_handler cl0 None None None [] (c_temp, w0)) =
     Inr [(''captchaSolve'', PNone), (''taskId'', PNone), (''error'', PBool True),
          (''errorBody'', PStr ''You did not send any file, local link or URL.'')] \<and>
   fst (aio_captcha_handler cl0 None None None [] (c_temp, w0)) =
     Inr [(''captchaSolve'', PNone), (''taskId'', PNone), (''error'', PBool True),
          (''errorBody'', PStr ''You did not send any file, local link or URL.'')] \<and>
   fst (captcha_handler cl0 (Some ''http://bad.invalid'') None None [] (c_temp, w0)) =
     Inr [(''error'', PBool True), (''errorBody'', PExc (Exc ''ConnectionError''))] \<and>
   fst (aio_captcha_handler cl0 (Some ''http://bad.invalid'') None None [] (c_temp, w0)) =
     Inr [(''error'', PBool True), (''errorBody'', PExc (Exc ''ConnectionError''))]"
  by (simp add: captcha_handler_def aio_captcha_handler_def truthy_def response_dict_def
                log_def ex_defs)

text \<open>
  C6, amended. The serialization option that omits the fields that are \<^verbatim>\<open>None\<close> is used
  on the fetch-failure path only: that result mapping has no \<^verbatim>\<open>None\<close> value. The
  zero-input path serializes without the option: its result mapping always has the four
  keys, the fields it never populates included. Both handlers.
\<close>

theorem omit_unset_on_fetch_failure_only:
  "(truthy file = None \<and> truthy raw = None \<and> truthy link = None \<longrightarrow>
      fst (captcha_handler cl link file raw kw (c, w)) =
        Inr (response_dict False ((result c)\<lparr>error := True, errorBody := PStr NO_CAPTCHA_ERR\<rparr>)) \<and>
      fst (aio_captcha_handler cl link file raw kw (c, w)) =
        Inr (response_dict False ((result c)\<lparr>error := True, errorBody := PStr NO_CAPTCHA_ERR\<rparr>)) \<and>
      map fst (response_dict False ((result c)\<lparr>error := True, errorBody := PStr NO_CAPTCHA_ERR\<rparr>)) =
        [''captchaSolve'', ''taskId'', ''error'', ''errorBody'']) \<and>
   (truthy file = None \<and> truthy raw = None \<and> truthy link = Some u \<and> is_Exception e \<longrightarrow>
      (url_open cl u kw = Inl e \<longrightarrow>
         fst (captcha_handler cl link file raw kw (c, w)) =
           Inr (response_dict True ((result c)\<lparr>error := True, errorBody := PExc e\<rparr>))) \<and>
      (aio_url_read cl u kw = Inl e \<longrightarrow>
         fst (aio_captcha_handler cl link file raw kw (c, w)) =
           Inr (response_dict True ((result c)\<lparr>error := True, errorBody := PExc e\<rparr>))) \<and>
      PNone \<notin> snd ` set (response_dict True ((result c)\<lparr>error := True, errorBody := PExc e\<rparr>)) \<and>
      response_dict True ((result c)\<lparr>error := True, errorBody := PExc e\<rparr>) =
        filter (\<lambda>(k, v). v \<noteq> PNone)
          (response_dict False ((result c)\<lparr>error := True, errorBody := PExc e\<rparr>)))"
proof -
  have "truthy file = None \<and> truthy raw = None \<and> truthy link = None \<longrightarrow>
      fst (captcha_handler cl link file raw kw (c, w)) =
        Inr (response_dict False ((result c)\<lparr>error := True, errorBody := PStr NO_CAPTCHA_ERR\<rparr>)) \<and>
      fst (aio_captcha_handler cl link file raw kw (c, w)) =
        Inr (response_dict False ((result c)\<lparr>error := True, errorBody := PStr NO_CAPTCHA_ERR\<rparr>))"
    by (simp add: captcha_handler_def aio_captcha_handler_def)
  moreover have "truthy file = None \<and> truthy raw = None \<and> truthy link = Some u \<and> is_Exception e \<longrightarrow>
      (url_open cl u kw = Inl e \<longrightarrow>
         fst (captcha_handler cl link file raw kw (c, w)) =
           Inr (response_dict True ((result c)\<lparr>error := True, errorBody := PExc e\<rparr>))) \<and>
      (aio_url_read cl u kw = Inl e \<longrightarrow>
         fst (aio_captcha_handler cl link file raw kw (c, w)) =
           Inr (response_dict True ((result c)\<lparr>error := True, errorBody := PExc e\<rparr>)))"
    by (simp add: captcha_handler_def aio_captcha_handler_def)
  ultimately show ?thesis
    using response_dict_all_keys[of "(result c)\<lparr>error := True, errorBody := PStr NO_CAPTCHA_ERR\<rparr>"]
          response_dict_no_None[of "(result c)\<lparr>error := True, errorBody := PExc e\<rparr>"]
          response_dict_exclude[of "(result c)\<lparr>error := True, errorBody := PExc e\<rparr>"]
    by blast
qed

theorem omit_unset_on_fetch_failure_only_witness:
  "truthy (None :: string option) = None \<and> truthy (None :: bytes option) = None \<and>
   truthy (Some ''http://bad.invalid'') = Some ''http://bad.invalid'' \<and>
   is_Exception (Exc ''ConnectionError'') \<and>
   url_open cl0 ''http://bad.invalid'' [] = Inl (Exc ''ConnectionError'') \<and>
   fst (captcha_handler cl0 None None None [] (c_temp, w0)) =
     Inr (response_dict False (result0\<lparr>error := True, errorBody := PStr NO_CAPTCHA_ERR\<rparr>)) \<and>
   fst (captcha_handler cl0 (Some ''http://bad.invalid'') None None [] (c_temp, w0)) =
     Inr (response_dict True (result0\<lparr>error := True, errorBody := PExc (Exc ''ConnectionError'')\<rparr>)) \<and>
   response_dict True (result0\<lparr>error := True, errorBody := PExc (Exc ''ConnectionError'')\<rparr>) =
     [(''error'', PBool True), (''errorBody'', PExc (Exc ''ConnectionError''))]"
proof -
  have t1: "truthy (None :: string option) = None" by (simp add: truthy_def)
  have t2: "truthy (None :: bytes option) = None" by (simp add: truthy_def)
  have t3: "truthy (Some ''http://bad.invalid'') = Some ''http://bad.invalid''"
    by (simp add: truthy_def)
  have e: "is_Exception (Exc ''ConnectionError'')" by simp
  have f: "url_open cl0 ''http://bad.invalid'' [] = Inl (Exc ''ConnectionError'')"
    by (simp add: cl0_def fetch0_def)
  have r: "result c_temp = result0" by (simp add: ex_defs)
  have v: "response_dict True (result0\<lparr>error := True, errorBody := PExc (Exc ''ConnectionError'')\<rparr>) =
     [(''error'', PBool True), (''errorBody'', PExc (Exc ''ConnectionError''))]"
    by (simp add: response_dict_def result0_def)
  have a: "fst (captcha_handler cl0 None None None [] (c_temp, w0)) =
     Inr (response_dict False (result0\<lparr>error := True, errorBody := PStr NO_CAPTCHA_ERR\<rparr>))"
    using t1 t2 r omit_unset_on_fetch_failure_only[of None None None cl0 "[]" c_temp w0]
    by simp
  have b: "fst (captcha_handler cl0 (Some ''http://bad.invalid'') None None [] (c_temp, w0)) =
     Inr (response_dict True (result0\<lparr>error := True, errorBody := PExc (Exc ''ConnectionError'')\<rparr>))"
    using t1 t2 t3 e f r
      omit_unset_on_fetch_failure_only[of None None "Some ''http://bad.invalid''" cl0 "[]" c_temp w0
        "''http://bad.invalid''" "Exc ''ConnectionError''"]
    by simp
  from t1 t2 t3 e f a b v show ?thesis by blast
qed

text \<open>
  C10. On the zero-input path and on the fetch-failure path either handler leaves the
  payload mapping of the object as it was: no \<^verbatim>\<open>body\<close> is written.
\<close>

theorem error_paths_keep_payload:
  "(truthy file = None \<and> truthy raw = None \<and> truthy link = None \<longrightarrow>
      post_payload (fst (snd (captcha_handler cl link file raw kw (c, w)))) = post_payload c \<and>
      post_payload (fst (snd (aio_captcha_handler cl link file raw kw (c, w)))) = post_payload c) \<and>
   (truthy file = None \<and> truthy raw = None \<and> truthy link = Some u \<and> is_Exception e \<longrightarrow>
      (url_open cl u kw = Inl e \<longrightarrow>
         post_payload (fst (snd (captcha_handler cl link file raw kw (c, w)))) = post_payload c) \<and>
      (aio_url_read cl u kw = Inl e \<longrightarrow>
         post_payload (fst (snd (aio_captcha_handler cl link file raw kw (c, w)))) = post_payload c))"
  by (simp add: captcha_handler_def aio_captcha_handler_def)

theorem error_paths_keep_payload_witness:
  "truthy (None :: string option) = None \<and> truthy (None :: bytes option) = None \<and>
   truthy (Some ''http://bad.invalid'') = Some ''http://bad.invalid'' \<and>
   is_Exception (Exc ''ConnectionError'') \<and>
   aio_url_read cl0 ''http://bad.invalid'' [] = Inl (Exc ''ConnectionError'') \<and>
   post_payload (fst (snd (captcha_handler cl0 None None None [] (c_const, w0)))) = payload0 \<and>
   post_payload (fst (snd (aio_captcha_handler cl0 (Some ''http://bad.invalid'') None None []
                             (c_const, w0)))) = payload0 \<and>
   map_of payload0 ''body'' = None"
proof -
  have t1: "truthy (None :: string option) = None" by (simp add: truthy_def)
  have t2: "truthy (None :: bytes option) = None" by (simp add: truthy_def)
  have t3: "truthy (Some ''http://bad.invalid'') = Some ''http://bad.invalid''"
    by (simp add: truthy_def)
  have e: "is_Exception (Exc ''ConnectionError'')" by simp
  have f: "aio_url_read cl0 ''http://bad.invalid'' [] = Inl (Exc ''ConnectionError'')"
    by (simp add: cl0_def fetch0_def)
  have p: "post_payload c_const = payload0" by (simp add: ex_defs)
  have n: "map_of payload0 ''body'' = None" by (simp add: payload0_def)
  have a: "post_payload (fst (snd (captcha_handler cl0 None None None [] (c_const, w0)))) = payload0"
    using t1 t2 p error_paths_keep_payload[of None None None cl0 "[]" c_const w0]
    by simp
  have b: "post_payload (fst (snd (aio_captcha_handler cl0 (Some ''http://bad.invalid'') None None []
                             (c_const, w0)))) = payload0"
    using t1 t2 t3 e f p
      error_paths_keep_payload[of None None "Some ''http://bad.invalid''" cl0 "[]" c_const w0
        "''http://bad.invalid''" "Exc ''ConnectionError''"]
    by simp
  from t1 t2 t3 e f a b n show ?thesis by blast
qed



text \<open>
  C8. \<^verbatim>\<open>__del__\<close> calls \<^verbatim>\<open>shutil.rmtree(self.img_path)\<close> exactly when the storage mode is
  persistent and clearing is enabled: then the call is the one file-system call made,
  and when the storage directory exists, its path has no \<^verbatim>\<open>..\<close> component and is one
  that \<^verbatim>\<open>os.rmdir\<close> accepts (its last component is not \<^verbatim>\<open>.\<close> and it is not the root),
  the call succeeds, nothing at or below the directory remains, and everything else
  stays. In every other configuration \<^verbatim>\<open>__del__\<close> returns with the world as it was: no
  file-system call at all.
\<close>

theorem teardown_clears_storage:
  "(save_format c = SaveFormatsEnm_CONST \<and> img_clearing c \<longrightarrow>
      trace (snd (captcha_del c w)) = trace w @ [EvRmtree (img_path c)] \<and>
      (img_path c \<noteq> [] \<and> is_dir (fs w) (parts (img_path c)) \<and>
       \<not> rmdir_refused (img_path c) \<and> ''..'' \<notin> set (parts (img_path c)) \<longrightarrow>
         fst (captcha_del c w) = Inr () \<and>
         (\<forall>q. prefix (parts (img_path c)) q \<longrightarrow>
            \<not> is_dir (fs (snd (captcha_del c w))) q \<and> \<not> is_file (fs (snd (captcha_del c w))) q) \<and>
         (\<forall>q. \<not> prefix (parts (img_path c)) q \<longrightarrow>
            is_dir (fs (snd (captcha_del c w))) q = is_dir (fs w) q \<and>
            map_of (files (fs (snd (captcha_del c w)))) q = map_of (files (fs w)) q))) \<and>
   (\<not> (save_format c = SaveFormatsEnm_CONST \<and> img_clearing c) \<longrightarrow>
      captcha_del c w = (Inr (), w))"
proof -
  have tr: "save_format c = SaveFormatsEnm_CONST \<and> img_clearing c \<longrightarrow>
      trace (snd (captcha_del c w)) = trace w @ [EvRmtree (img_path c)]"
    by (simp add: captcha_del_def log_def split: prod.splits)
  have rm: "save_format c = SaveFormatsEnm_CONST \<and> img_clearing c \<and>
      img_path c \<noteq> [] \<and> is_dir (fs w) (parts (img_path c)) \<and>
      \<not> rmdir_refused (img_path c) \<and> ''..'' \<notin> set (parts (img_path c)) \<longrightarrow>
         fst (captcha_del c w) = Inr () \<and>
         (\<forall>q. prefix (parts (img_path c)) q \<longrightarrow>
            \<not> is_dir (fs (snd (captcha_del c w))) q \<and> \<not> is_file (fs (snd (captcha_del c w))) q) \<and>
         (\<forall>q. \<not> prefix (parts (img_path c)) q \<longrightarrow>
            is_dir (fs (snd (captcha_del c w))) q = is_dir (fs w) q \<and>
            map_of (files (fs (snd (captcha_del c w)))) q = map_of (files (fs w)) q)"
  proof (intro impI, elim conjE)
    assume h: "save_format c = SaveFormatsEnm_CONST" "img_clearing c"
       and ne: "img_path c \<noteq> []" and d: "is_dir (fs w) (parts (img_path c))"
       and ok: "\<not> rmdir_refused (img_path c)"
    have r: "fst (rmtree (img_path c) (fs w)) = Inr ()"
      using ne d ok by (rule rmtree_succeeds)
    have del: "captcha_del c w =
                 (Inr (), (log (EvRmtree (img_path c)) w)\<lparr>fs := snd (rmtree (img_path c) (fs w))\<rparr>)"
      using h r by (cases "rmtree (img_path c) (fs w)") (simp add: captcha_del_def)
    show "fst (captcha_del c w) = Inr () \<and>
         (\<forall>q. prefix (parts (img_path c)) q \<longrightarrow>
            \<not> is_dir (fs (snd (captcha_del c w))) q \<and> \<not> is_file (fs (snd (captcha_del c w))) q) \<and>
         (\<forall>q. \<not> prefix (parts (img_path c)) q \<longrightarrow>
            is_dir (fs (snd (captcha_del c w))) q = is_dir (fs w) q \<and>
            map_of (files (fs (snd (captcha_del c w)))) q = map_of (files (fs w)) q)"
      unfolding del using rmtree_removes[OF r] rmtree_keeps[of "img_path c" _ "fs w"] by simp
  qed
  have no: "\<not> (save_format c = SaveFormatsEnm_CONST \<and> img_clearing c) \<longrightarrow>
      captcha_del c w = (Inr (), w)"
    by (simp add: captcha_del_def)
  from tr rm no show ?thesis by blast
qed

theorem teardown_clears_storage_witness:
  "save_format c_const = SaveFormatsEnm_CONST \<and> img_clearing c_const \<and>
   img_path c_const \<noteq> [] \<and> is_dir (fs w_cached) (parts (img_path c_const)) \<and>
   \<not> rmdir_refused (img_path c_const) \<and> ''..'' \<notin> set (parts (img_path c_const)) \<and>
   fst (captcha_del c_const w_cached) = Inr () \<and>
   \<not> is_dir (fs (snd (captcha_del c_const w_cached))) [''PythonRuCaptchaImages''] \<and>
   \<not> is_file (fs (snd (captcha_del c_const w_cached)))
        [''PythonRuCaptchaImages'', ''im-1b4e28ba-2fa1-41d2-883f-0016d3cca427.png''] \<and>
   map_of (files (fs (snd (captcha_del c_const w_cached)))) [''sample.png''] = Some png_bytes \<and>
   save_format c_temp \<noteq> SaveFormatsEnm_CONST \<and>
   captcha_del c_temp w_cached = (Inr (), w_cached)"
proof -
  have m: "save_format c_const = SaveFormatsEnm_CONST" by (simp add: ex_defs)
  have g: "img_clearing c_const" by (simp add: ex_defs)
  have p: "img_path c_const = ''PythonRuCaptchaImages''" by (simp add: ex_defs)
  have ne: "img_path c_const \<noteq> []" by (simp add: p)
  have d: "is_dir (fs w_cached) (parts (img_path c_const))"
    by (simp add: p parts_default_dir w_cached_eq is_dir_def)
  have ok: "\<not> rmdir_refused (img_path c_const)" by (simp add: p rmdir_refused_def)
  have dd: "''..'' \<notin> set (parts (img_path c_const))" by (simp add: p parts_default_dir)
  have s: "map_of (files (fs w_cached)) [''sample.png''] = Some png_bytes"
    by (simp add: w_cached_eq)
  have tm: "save_format c_temp \<noteq> SaveFormatsEnm_CONST" by (simp add: ex_defs)
  note T = teardown_clears_storage[of c_const w_cached]
  have a: "fst (captcha_del c_const w_cached) = Inr ()" using m g ne d ok dd T by blast
  have q: "\<forall>q. prefix [''PythonRuCaptchaImages''] q \<longrightarrow>
            \<not> is_dir (fs (snd (captcha_del c_const w_cached))) q \<and>
            \<not> is_file (fs (snd (captcha_del c_const w_cached))) q"
    using m g ne d ok dd T by (simp add: p parts_default_dir)
  have k: "\<forall>q. \<not> prefix [''PythonRuCaptchaImages''] q \<longrightarrow>
            map_of (files (fs (snd (captcha_del c_const w_cached)))) q =
            map_of (files (fs w_cached)) q"
    using m g ne d ok dd T by (simp add: p parts_default_dir)
  have b1: "\<not> is_dir (fs (snd (captcha_del c_const w_cached))) [''PythonRuCaptchaImages'']"
    using q by simp
  have b2: "\<not> is_file (fs (snd (captcha_del c_const w_cached)))
        [''PythonRuCaptchaImages'', ''im-1b4e28ba-2fa1-41d2-883f-0016d3cca427.png'']"
    using q by simp
  have b3: "map_of (files (fs (snd (captcha_del c_const w_cached)))) [''sample.png''] = Some png_bytes"
    using k s by simp
  have b4: "captcha_del c_temp w_cached = (Inr (), w_cached)"
    using tm teardown_clears_storage[of c_temp w_cached] by blast
  from m g ne d ok dd a b1 b2 b3 tm b4 show ?thesis by blast
qed

text \<open>
  C9. In persistent mode with clearing enabled, when nothing exists at the storage path
  (no successful fetch has created the directory), \<^verbatim>\<open>__del__\<close> calls \<^verbatim>\<open>shutil.rmtree\<close> on
  the missing path and raises; it is not a no-op, and the file system is left as it was.
  The exception is \<^verbatim>\<open>FileNotFoundError\<close>, or \<^verbatim>\<open>NotADirectoryError\<close> when a regular file
  stands in the place of an ancestor of the path.
\<close>

theorem teardown_raises_without_directory:
  assumes "save_format c = SaveFormatsEnm_CONST" and "img_clearing c"
      and "\<not> is_dir (fs w) (parts (img_path c))" and "\<not> is_file (fs w) (parts (img_path c))"
  shows "captcha_del c w =
           (Inl (Exc (if list_ex (is_file (fs w)) (prefixes (parts (img_path c)))
                      then ''NotADirectoryError'' else ''FileNotFoundError'')),
            log (EvRmtree (img_path c)) w)"
  using assms rmtree_missing[of "fs w" "img_path c"] by (simp add: captcha_del_def log_def)

theorem teardown_raises_without_directory_witness:
  "save_format c_const = SaveFormatsEnm_CONST \<and> img_clearing c_const \<and>
   \<not> is_dir (fs w0) (parts (img_path c_const)) \<and> \<not> is_file (fs w0) (parts (img_path c_const)) \<and>
   captcha_del c_const w0 =
     (Inl (Exc ''FileNotFoundError''), w0\<lparr>trace := [EvRmtree ''PythonRuCaptchaImages'']\<rparr>)"
proof -
  have m: "save_format c_const = SaveFormatsEnm_CONST" by (simp add: ex_defs)
  have g: "img_clearing c_const" by (simp add: ex_defs)
  have p: "img_path c_const = ''PythonRuCaptchaImages''" by (simp add: ex_defs)
  have d: "\<not> is_dir (fs w0) (parts (img_path c_const))"
    by (simp add: p parts_default_dir w0_def is_dir_def)
  have f: "\<not> is_file (fs w0) (parts (img_path c_const))"
    by (simp add: p parts_default_dir w0_def is_file_def)
  have n: "\<not> list_ex (is_file (fs w0)) (prefixes (parts (img_path c_const)))"
    by (simp add: p parts_default_dir w0_def is_file_def)
  have l: "log (EvRmtree ''PythonRuCaptchaImages'') w0 =
           w0\<lparr>trace := [EvRmtree ''PythonRuCaptchaImages'']\<rparr>"
    by (simp add: log_def w0_def)
  from teardown_raises_without_directory[OF m g d f] m g d f n show ?thesis
    by (simp add: p l)
qed

end
